theory Spec2Isabelle
  imports Complex_Main "HOL-Library.Monad_Syntax"
begin

section \<open>Python values and the builtins the tag layer calls\<close>

text \<open>
  \<^verbatim>\<open>ezdxf/lldxf/types.py\<close> stores and converts Python values and never computes with
  them. A value is a text, an integer, a float or a tuple of values. The type \<open>'f\<close> of
  floats is left open: the module only converts floats from and to text, and those
  conversions (\<^verbatim>\<open>float(...)\<close>, \<^verbatim>\<open>str(...)\<close> of a float) are builtins of the Python
  runtime. They are the fields of the record \<open>py_ops\<close>; every theorem below holds for
  every such record. Strings are ASCII, and the builtins are those of Python 3.
\<close>

datatype 'f pyvalue =
    PyStr string
  | PyInt int
  | PyFloat 'f
  | PyTuple "'f pyvalue list"

datatype error = ValueError | TypeError | OverflowError

record 'f py_ops =
  float_of_str :: "string \<Rightarrow> 'f option"
  float_of_int :: "int \<Rightarrow> 'f option"
  int_of_float :: "'f \<Rightarrow> error + int"
  str_of_float :: "'f \<Rightarrow> string"
  repr_of_str :: "string \<Rightarrow> string"

text \<open>
  \<open>float_of_str\<close> is \<^verbatim>\<open>float(s)\<close> of a text (\<open>None\<close>: ValueError), \<open>float_of_int\<close> is
  \<^verbatim>\<open>float(i)\<close> of an integer (\<open>None\<close>: OverflowError), \<open>int_of_float\<close> is \<^verbatim>\<open>int(x)\<close> of
  a float, \<open>str_of_float\<close> is \<^verbatim>\<open>str(x)\<close> of a float, \<open>repr_of_str\<close> is \<^verbatim>\<open>repr(s)\<close> of a
  text.
\<close>

definition newline :: char where
  "newline = CHR 0x0A"

subsection \<open>\<^verbatim>\<open>str(i)\<close> and \<^verbatim>\<open>'%3d' % i\<close> of an integer\<close>

definition digit_char :: "nat \<Rightarrow> char" where
  "digit_char d = ''0123456789'' ! d"

fun str_nat :: "nat \<Rightarrow> string" where
  "str_nat n = (if n < 10 then [digit_char n] else str_nat (n div 10) @ [digit_char (n mod 10)])"

declare str_nat.simps [simp del]

definition str_int :: "int \<Rightarrow> string" where
  "str_int i = (if i < 0 then CHR ''-'' # str_nat (nat (- i)) else str_nat (nat i))"

text \<open>\<^verbatim>\<open>'%3d' % code\<close>: the decimal text, padded on the left with spaces to three characters.\<close>

definition fmt_3d :: "int \<Rightarrow> string" where
  "fmt_3d code = (let s = str_int code in replicate (3 - length s) CHR '' '' @ s)"

subsection \<open>\<^verbatim>\<open>int(s)\<close> of a text\<close>

text \<open>
  Surrounding whitespace (tab, line feed, vertical tab, form feed, carriage return,
  space) is dropped; then an optional sign and decimal digits, where a single underscore
  may stand between two digits. Anything else is a ValueError (\<open>None\<close>).
\<close>

definition is_space :: "char \<Rightarrow> bool" where
  "is_space c = (c \<in> set [CHR 0x09, CHR 0x0A, CHR 0x0B, CHR 0x0C, CHR 0x0D, CHR 0x20])"

definition strip :: "string \<Rightarrow> string" where
  "strip s = rev (dropWhile is_space (rev (dropWhile is_space s)))"

definition digit_of :: "char \<Rightarrow> nat option" where
  "digit_of c =
     (let n = (of_char c :: nat) in if 48 \<le> n \<and> n \<le> 57 then Some (n - 48) else None)"

fun more_digits :: "nat \<Rightarrow> string \<Rightarrow> nat option" where
  "more_digits acc [] = Some acc"
| "more_digits acc [c] = (case digit_of c of None \<Rightarrow> None | Some d \<Rightarrow> Some (10 * acc + d))"
| "more_digits acc (c # c' # cs) =
     (if c = CHR ''_''
      then (case digit_of c' of None \<Rightarrow> None | Some d \<Rightarrow> more_digits (10 * acc + d) cs)
      else (case digit_of c of None \<Rightarrow> None | Some d \<Rightarrow> more_digits (10 * acc + d) (c' # cs)))"

definition nat_of_str :: "string \<Rightarrow> nat option" where
  "nat_of_str s =
     (case s of [] \<Rightarrow> None
      | c # cs \<Rightarrow> (case digit_of c of None \<Rightarrow> None | Some d \<Rightarrow> more_digits d cs))"

definition int_of_str :: "string \<Rightarrow> int option" where
  "int_of_str s =
     (case strip s of [] \<Rightarrow> None
      | c # cs \<Rightarrow>
          if c = CHR ''-'' then map_option (\<lambda>n. - int n) (nat_of_str cs)
          else if c = CHR ''+'' then map_option int (nat_of_str cs)
          else map_option int (nat_of_str (c # cs)))"

subsection \<open>\<^verbatim>\<open>str\<close>, \<^verbatim>\<open>repr\<close>, \<^verbatim>\<open>float\<close>, \<^verbatim>\<open>int\<close> of a value\<close>

fun join :: "string \<Rightarrow> string list \<Rightarrow> string" where
  "join sep [] = []"
| "join sep [x] = x"
| "join sep (x # y # ys) = x @ sep @ join sep (y # ys)"

text \<open>The text of a tuple from the \<^verbatim>\<open>repr\<close> of its items: \<^verbatim>\<open>()\<close>, \<^verbatim>\<open>(a,)\<close>, \<^verbatim>\<open>(a, b)\<close>.\<close>

definition tuple_text :: "string list \<Rightarrow> string" where
  "tuple_text rs =
     (case rs of [] \<Rightarrow> ''()''
      | [r] \<Rightarrow> ''('' @ r @ '',)''
      | _ \<Rightarrow> ''('' @ join '', '' rs @ '')'')"

fun py_repr :: "'f py_ops \<Rightarrow> 'f pyvalue \<Rightarrow> string" where
  "py_repr ops (PyStr s) = repr_of_str ops s"
| "py_repr ops (PyInt i) = str_int i"
| "py_repr ops (PyFloat x) = str_of_float ops x"
| "py_repr ops (PyTuple vs) = tuple_text (map (py_repr ops) vs)"

text \<open>\<^verbatim>\<open>str(v)\<close>, which is also what \<^verbatim>\<open>'%s' % v\<close> inserts: a text is itself.\<close>

fun py_str :: "'f py_ops \<Rightarrow> 'f pyvalue \<Rightarrow> string" where
  "py_str ops (PyStr s) = s"
| "py_str ops (PyInt i) = py_repr ops (PyInt i)"
| "py_str ops (PyFloat x) = py_repr ops (PyFloat x)"
| "py_str ops (PyTuple vs) = py_repr ops (PyTuple vs)"

fun py_float :: "'f py_ops \<Rightarrow> 'f pyvalue \<Rightarrow> error + 'f" where
  "py_float ops (PyStr s) =
     (case float_of_str ops s of None \<Rightarrow> Inl ValueError | Some x \<Rightarrow> Inr x)"
| "py_float ops (PyInt i) =
     (case float_of_int ops i of None \<Rightarrow> Inl OverflowError | Some x \<Rightarrow> Inr x)"
| "py_float ops (PyFloat x) = Inr x"
| "py_float ops (PyTuple vs) = Inl TypeError"

fun py_int :: "'f py_ops \<Rightarrow> 'f pyvalue \<Rightarrow> error + int" where
  "py_int ops (PyStr s) = (case int_of_str s of None \<Rightarrow> Inl ValueError | Some i \<Rightarrow> Inr i)"
| "py_int ops (PyInt i) = Inr i"
| "py_int ops (PyFloat x) = int_of_float ops x"
| "py_int ops (PyTuple vs) = Inl TypeError"

text \<open>Iterating a value: a text yields its characters, a tuple its items; a number is
  not iterable.\<close>

fun py_iter :: "'f pyvalue \<Rightarrow> error + 'f pyvalue list" where
  "py_iter (PyStr s) = Inr (map (\<lambda>c. PyStr [c]) s)"
| "py_iter (PyTuple vs) = Inr vs"
| "py_iter (PyInt i) = Inl TypeError"
| "py_iter (PyFloat x) = Inl TypeError"

section \<open>Tags (\<^verbatim>\<open>ezdxf/lldxf/types.py\<close>)\<close>

text \<open>
  \<^verbatim>\<open>TAG_STRING_FORMAT % (code, value)\<close> with \<^verbatim>\<open>TAG_STRING_FORMAT = '%3d\n%s\n'\<close>. A group
  code is an integer.
\<close>

definition TAG_STRING_FORMAT :: "'f py_ops \<Rightarrow> int \<times> 'f pyvalue \<Rightarrow> string" where
  "TAG_STRING_FORMAT ops tag =
     fmt_3d (fst tag) @ [newline] @ py_str ops (snd tag) @ [newline]"

text \<open>
  The classes \<^verbatim>\<open>DXFTag\<close> and \<^verbatim>\<open>DXFVertex\<close>. A \<^verbatim>\<open>DXFVertex\<close> keeps its components in an
  \<^verbatim>\<open>array('d', ...)\<close>, a sequence of floats.
\<close>

datatype 'f dxftag =
    DXFTag int "'f pyvalue"
  | DXFVertex int "'f list"

fun tag_code :: "'f dxftag \<Rightarrow> int" where
  "tag_code (DXFTag c v) = c"
| "tag_code (DXFVertex c xs) = c"

text \<open>The property \<^verbatim>\<open>value\<close>: for a vertex, \<^verbatim>\<open>tuple(self._value)\<close>.\<close>

fun tag_value :: "'f dxftag \<Rightarrow> 'f pyvalue" where
  "tag_value (DXFTag c v) = v"
| "tag_value (DXFVertex c xs) = PyTuple (map PyFloat xs)"

text \<open>\<^verbatim>\<open>DXFVertex.dxftags\<close>: \<^verbatim>\<open>zip((c, c+10, c+20), self.value)\<close>.\<close>

fun dxftags :: "'f dxftag \<Rightarrow> (int \<times> 'f pyvalue) list" where
  "dxftags (DXFVertex c xs) = zip [c, c + 10, c + 20] (map PyFloat xs)"
| "dxftags (DXFTag c v) = [(c, v)]"

fun dxfstr :: "'f py_ops \<Rightarrow> 'f dxftag \<Rightarrow> string" where
  "dxfstr ops (DXFTag c v) = TAG_STRING_FORMAT ops (c, v)"
| "dxfstr ops (DXFVertex c xs) = concat (map (TAG_STRING_FORMAT ops) (dxftags (DXFVertex c xs)))"

subsection \<open>The type table\<close>

text \<open>The four casters the table holds, and calling one.\<close>

datatype caster = Cpoint_tuple | Cfloat | Cint | Custr

fun floats_of :: "'f py_ops \<Rightarrow> 'f pyvalue list \<Rightarrow> error + 'f list" where
  "floats_of ops [] = Inr []"
| "floats_of ops (v # vs) =
     (case py_float ops v of Inl e \<Rightarrow> Inl e
      | Inr x \<Rightarrow> (case floats_of ops vs of Inl e \<Rightarrow> Inl e | Inr xs \<Rightarrow> Inr (x # xs)))"

text \<open>\<^verbatim>\<open>point_tuple(value)\<close>: \<^verbatim>\<open>tuple(float(f) for f in value)\<close>.\<close>

definition point_tuple :: "'f py_ops \<Rightarrow> 'f pyvalue \<Rightarrow> error + 'f pyvalue" where
  "point_tuple ops v =
     (case py_iter v of Inl e \<Rightarrow> Inl e
      | Inr items \<Rightarrow>
          (case floats_of ops items of Inl e \<Rightarrow> Inl e
           | Inr xs \<Rightarrow> Inr (PyTuple (map PyFloat xs))))"

definition ustr :: "'f py_ops \<Rightarrow> 'f pyvalue \<Rightarrow> 'f pyvalue" where
  "ustr ops v = PyStr (py_str ops v)"

fun call :: "'f py_ops \<Rightarrow> caster \<Rightarrow> 'f pyvalue \<Rightarrow> error + 'f pyvalue" where
  "call ops Cpoint_tuple v = point_tuple ops v"
| "call ops Cfloat v = map_sum id PyFloat (py_float ops v)"
| "call ops Cint v = map_sum id PyInt (py_int ops v)"
| "call ops Custr v = Inr (ustr ops v)"

text \<open>\<^verbatim>\<open>_build_type_table\<close>: the inner loop assigns the caster to every code of one
  rule, the outer loop runs through the rules in order, so a later assignment overwrites
  an earlier one. The table starts empty.\<close>

fun assign_codes :: "caster \<Rightarrow> int list \<Rightarrow> (int \<rightharpoonup> caster) \<Rightarrow> (int \<rightharpoonup> caster)" where
  "assign_codes caster [] table = table"
| "assign_codes caster (code # codes) table = assign_codes caster codes (table(code \<mapsto> caster))"

fun assign_rules :: "(caster \<times> int list) list \<Rightarrow> (int \<rightharpoonup> caster) \<Rightarrow> (int \<rightharpoonup> caster)" where
  "assign_rules [] table = table"
| "assign_rules ((caster, codes) # types) table =
     assign_rules types (assign_codes caster codes table)"

definition build_type_table :: "(caster \<times> int list) list \<Rightarrow> (int \<rightharpoonup> caster)" where
  "build_type_table types = assign_rules types Map.empty"

text \<open>\<^verbatim>\<open>range(a, b)\<close>: the integers from \<open>a\<close> up to \<open>b - 1\<close>.\<close>

definition py_range :: "int \<Rightarrow> int \<Rightarrow> int list" where
  "py_range a b = [a..b - 1]"

text \<open>The list of rules that \<^verbatim>\<open>TYPE_TABLE\<close> is built from, in the source's order.\<close>

definition TYPE_TABLE_types :: "(caster \<times> int list) list" where
  "TYPE_TABLE_types =
    [(Cpoint_tuple, py_range 10 20),
     (Cfloat, py_range 20 60),
     (Cint, py_range 60 100),
     (Cpoint_tuple, py_range 110 113),
     (Cfloat, py_range 113 150),
     (Cint, py_range 160 170),
     (Cint, py_range 170 180),
     (Cpoint_tuple, [210]),
     (Cfloat, py_range 211 240),
     (Cint, py_range 270 290),
     (Cint, py_range 290 300),
     (Cint, py_range 370 390),
     (Cint, py_range 400 410),
     (Cint, py_range 420 430),
     (Cint, py_range 440 460),
     (Cfloat, py_range 460 470),
     (Cpoint_tuple, py_range 1010 1020),
     (Cfloat, py_range 1020 1060),
     (Cint, py_range 1060 1072)]"

definition TYPE_TABLE :: "int \<rightharpoonup> caster" where
  "TYPE_TABLE = build_type_table TYPE_TABLE_types"

definition POINT_CODES :: "int set" where
  "POINT_CODES = set
    [10, 11, 12, 13, 14, 15, 16, 17, 18, 19,
     110, 111, 112, 210,
     1010, 1011, 1012, 1013, 1014, 1015, 1016, 1017, 1018, 1019]"

definition POINTER_CODES :: "int set" where
  "POINTER_CODES = set (py_range 320 370 @ py_range 390 400 @ [480, 481, 1005])"

definition is_pointer_code :: "int \<Rightarrow> bool" where
  "is_pointer_code code = (code \<in> POINTER_CODES)"

definition is_point_code :: "int \<Rightarrow> bool" where
  "is_point_code code = (code \<in> POINT_CODES)"

definition is_point_tag :: "int \<times> 'f pyvalue \<Rightarrow> bool" where
  "is_point_tag tag = (fst tag \<in> POINT_CODES)"

text \<open>\<^verbatim>\<open>d.get(key, default)\<close> of a dictionary.\<close>

definition dict_get :: "('k \<rightharpoonup> 'v) \<Rightarrow> 'k \<Rightarrow> 'v \<Rightarrow> 'v" where
  "dict_get d k dflt = (case d k of None \<Rightarrow> dflt | Some v \<Rightarrow> v)"

definition cast_tag_value ::
  "'f py_ops \<Rightarrow> int \<Rightarrow> 'f pyvalue \<Rightarrow> (int \<rightharpoonup> caster) \<Rightarrow> error + 'f pyvalue" where
  "cast_tag_value ops code v types = call ops (dict_get types code Custr) v"

definition tag_type :: "int \<Rightarrow> caster" where
  "tag_type code = dict_get TYPE_TABLE code Custr"

section \<open>The upright transform (\<^verbatim>\<open>ezdxf/upright.py\<close>)\<close>

text \<open>
  Floats are modelled by the reals they stand for: rounding, infinities and NaN are left
  out. An attribute value is a number or a vector. The namespace \<^verbatim>\<open>entity.dxf\<close> holds the
  attributes that are set (\<open>attribs\<close>) and the defaults its entity class declares
  (\<open>defaults\<close>); \<^verbatim>\<open>hasattr\<close>, \<^verbatim>\<open>get\<close>, \<^verbatim>\<open>set\<close> and \<^verbatim>\<open>discard\<close> work on the attributes
  that are set, and reading \<^verbatim>\<open>dxf.name\<close> gives the set value, else the default. An
  exception ends the run: it is the result \<open>None\<close>.
\<close>

type_synonym vec3 = "real \<times> real \<times> real"

datatype dxfvalue = Num real | Vec vec3

record DXFNamespace =
  attribs :: "string \<rightharpoonup> dxfvalue"
  defaults :: "string \<rightharpoonup> dxfvalue"

record entity =
  is_DXFGraphic :: bool
  is_alive :: bool
  dxftype :: string
  dxf :: DXFNamespace

text \<open>
  What the module imports and these sources do not hold: \<^verbatim>\<open>Vec3.normalize\<close>,
  \<^verbatim>\<open>Vec3.isclose\<close>, the conversion \<^verbatim>\<open>to_wcs\<close> of the OCS of the flipped axis, and the
  constant \<^verbatim>\<open>const.VERTEXNAMES\<close>. They are parameters of the model.
  \<^verbatim>\<open>Vec3.normalize\<close> scales by the inverse of the magnitude and raises
  ZeroDivisionError where that is zero: \<open>normalize_vec\<close> is \<open>None\<close> there.
\<close>

record math_ops =
  normalize_vec :: "vec3 \<Rightarrow> vec3 option"
  isclose :: "vec3 \<Rightarrow> vec3 \<Rightarrow> bool"
  FLIPPED_OCS_to_wcs :: "vec3 \<Rightarrow> vec3"
  VERTEXNAMES :: "string list"

definition hasattr :: "DXFNamespace \<Rightarrow> string \<Rightarrow> bool" where
  "hasattr d name = (attribs d name \<noteq> None)"

definition getattr :: "DXFNamespace \<Rightarrow> string \<Rightarrow> dxfvalue option" where
  "getattr d name = (case attribs d name of Some v \<Rightarrow> Some v | None \<Rightarrow> defaults d name)"

definition dxf_get :: "DXFNamespace \<Rightarrow> string \<Rightarrow> dxfvalue option" where
  "dxf_get d name = attribs d name"

definition setattr :: "DXFNamespace \<Rightarrow> string \<Rightarrow> dxfvalue \<Rightarrow> DXFNamespace" where
  "setattr d name v = d\<lparr>attribs := (attribs d)(name \<mapsto> v)\<rparr>"

definition discard :: "DXFNamespace \<Rightarrow> string \<Rightarrow> DXFNamespace" where
  "discard d name = d\<lparr>attribs := (attribs d)(name := None)\<rparr>"

text \<open>\<^verbatim>\<open>Vec3(v)\<close> of a value, unary minus of a value, and a value taken as a float.\<close>

fun Vec3 :: "dxfvalue \<Rightarrow> vec3 option" where
  "Vec3 (Vec v) = Some v"
| "Vec3 (Num x) = None"

fun neg_vec :: "vec3 \<Rightarrow> vec3" where
  "neg_vec (x, y, z) = (- x, - y, - z)"

fun neg_value :: "dxfvalue \<Rightarrow> dxfvalue" where
  "neg_value (Num x) = Num (- x)"
| "neg_value (Vec v) = Vec (neg_vec v)"

fun as_float :: "dxfvalue \<Rightarrow> real option" where
  "as_float (Num x) = Some x"
| "as_float (Vec v) = None"

definition Z_AXIS :: vec3 where
  "Z_AXIS = (0, 0, 1)"

definition FLIPPED_Z_AXIS :: vec3 where
  "FLIPPED_Z_AXIS = neg_vec Z_AXIS"

definition flip_deg_angle :: "real \<Rightarrow> real" where
  "flip_deg_angle angle = (if angle \<ge> 0 then 180 else - 180) - angle"

definition flip_rad_angle :: "real \<Rightarrow> real" where
  "flip_rad_angle angle = (if angle \<ge> 0 then pi else - pi) - angle"

definition flip_vertex :: "math_ops \<Rightarrow> dxfvalue \<Rightarrow> dxfvalue option" where
  "flip_vertex M vertex = map_option (\<lambda>v. Vec (FLIPPED_OCS_to_wcs M v)) (Vec3 vertex)"

definition flip_existing_vertex :: "math_ops \<Rightarrow> DXFNamespace \<Rightarrow> string \<Rightarrow> DXFNamespace option" where
  "flip_existing_vertex M d name =
     (if hasattr d name
      then do {
        v \<leftarrow> dxf_get d name;
        vertex \<leftarrow> flip_vertex M v;
        Some (setattr d name vertex)
      }
      else Some d)"

definition flip_thickness :: "DXFNamespace \<Rightarrow> DXFNamespace option" where
  "flip_thickness d =
     (if hasattr d ''thickness''
      then do {
        t \<leftarrow> getattr d ''thickness'';
        Some (setattr d ''thickness'' (neg_value t))
      }
      else Some d)"

definition flip_circle :: "math_ops \<Rightarrow> DXFNamespace \<Rightarrow> DXFNamespace option" where
  "flip_circle M d = do {
     center \<leftarrow> getattr d ''center'';
     vertex \<leftarrow> flip_vertex M center;
     d1 \<leftarrow> flip_thickness (setattr d ''center'' vertex);
     Some (discard d1 ''extrusion'')
   }"

definition flip_arc :: "math_ops \<Rightarrow> DXFNamespace \<Rightarrow> DXFNamespace option" where
  "flip_arc M d = do {
     d1 \<leftarrow> flip_circle M d;
     end_angle \<leftarrow> getattr d1 ''end_angle'';
     start_angle \<leftarrow> getattr d1 ''start_angle'';
     a \<leftarrow> as_float start_angle;
     let d2 = setattr d1 ''end_angle'' (Num (flip_deg_angle a));
     b \<leftarrow> as_float end_angle;
     Some (setattr d2 ''start_angle'' (Num (flip_deg_angle b)))
   }"

text \<open>The loop of \<^verbatim>\<open>_flip_solid\<close> over the vertex names.\<close>

fun flip_vertices :: "math_ops \<Rightarrow> string list \<Rightarrow> DXFNamespace \<Rightarrow> DXFNamespace option" where
  "flip_vertices M [] d = Some d"
| "flip_vertices M (name # names) d =
     (case flip_existing_vertex M d name of None \<Rightarrow> None | Some d1 \<Rightarrow> flip_vertices M names d1)"

definition flip_solid :: "math_ops \<Rightarrow> DXFNamespace \<Rightarrow> DXFNamespace option" where
  "flip_solid M d = do {
     d1 \<leftarrow> flip_vertices M (VERTEXNAMES M) d;
     d2 \<leftarrow> flip_thickness d1;
     Some (discard d2 ''extrusion'')
   }"

definition flip_ellipse :: "DXFNamespace \<Rightarrow> DXFNamespace option" where
  "flip_ellipse d = do {
     e \<leftarrow> getattr d ''end_param'';
     let end_param = neg_value e;
     s \<leftarrow> getattr d ''start_param'';
     let d1 = setattr d ''end_param'' (neg_value s);
     let d2 = setattr d1 ''start_param'' end_param;
     Some (discard d2 ''extrusion'')
   }"

definition SIMPLE_UPRIGHT_TOOLS ::
  "math_ops \<Rightarrow> string \<rightharpoonup> (DXFNamespace \<Rightarrow> DXFNamespace option)" where
  "SIMPLE_UPRIGHT_TOOLS M =
     [''CIRCLE'' \<mapsto> flip_circle M,
      ''ARC'' \<mapsto> flip_arc M,
      ''SOLID'' \<mapsto> flip_solid M,
      ''TRACE'' \<mapsto> flip_solid M,
      ''ELLIPSE'' \<mapsto> flip_ellipse]"

definition flip_complex_entity :: "entity \<Rightarrow> entity option" where
  "flip_complex_entity e = Some e"

text \<open>The values of this dictionary are a function or \<^verbatim>\<open>None\<close>.\<close>

definition COMPLEX_UPRIGHT_TOOLS :: "string \<rightharpoonup> (entity \<Rightarrow> entity option) option" where
  "COMPLEX_UPRIGHT_TOOLS =
     [''LWPOLYLINE'' \<mapsto> Some flip_complex_entity,
      ''POLYLINE'' \<mapsto> None,
      ''HATCH'' \<mapsto> None,
      ''MPOLYGON'' \<mapsto> None,
      ''INSERT'' \<mapsto> None]"

definition upright :: "math_ops \<Rightarrow> entity \<Rightarrow> entity option" where
  "upright M e =
     (if \<not> (is_DXFGraphic e \<and> is_alive e \<and> hasattr (dxf e) ''extrusion'') then Some e
      else do {
        x \<leftarrow> getattr (dxf e) ''extrusion'';
        v \<leftarrow> Vec3 x;
        extrusion \<leftarrow> normalize_vec M v;
        if \<not> isclose M extrusion FLIPPED_Z_AXIS then Some e
        else (case SIMPLE_UPRIGHT_TOOLS M (dxftype e) of
                Some simple_tool \<Rightarrow> map_option (\<lambda>d. e\<lparr>dxf := d\<rparr>) (simple_tool (dxf e))
              | None \<Rightarrow>
                  (case COMPLEX_UPRIGHT_TOOLS (dxftype e) of
                     Some (Some complex_tool) \<Rightarrow> complex_tool e
                   | _ \<Rightarrow> Some e))
      })"

fun upright_all :: "math_ops \<Rightarrow> entity list \<Rightarrow> entity list option" where
  "upright_all M [] = Some []"
| "upright_all M (e # es) =
     (case upright M e of None \<Rightarrow> None
      | Some e1 \<Rightarrow> map_option (\<lambda>es1. e1 # es1) (upright_all M es))"

text \<open>
  An instance of the parameters, for running the model on concrete entities: the unit
  vector (none for the null vector), equality within \<open>10\<^sup>-\<^sup>1\<^sup>2\<close> in every coordinate, and the frame of the axis
  \<open>(0, 0, -1)\<close>, whose x axis is \<open>(-1, 0, 0)\<close> and whose y axis is \<open>(0, 1, 0)\<close>. No theorem
  about the code depends on it.
\<close>

definition plain_math :: math_ops where
  "plain_math =
     \<lparr> normalize_vec = (\<lambda>(x, y, z).
          let m = sqrt (x * x + y * y + z * z)
          in if m = 0 then None else Some (x / m, y / m, z / m)),
       isclose = (\<lambda>(a, b, c) (x, y, z).
          \<bar>a - x\<bar> \<le> 1 / 10 ^ 12 \<and> \<bar>b - y\<bar> \<le> 1 / 10 ^ 12 \<and> \<bar>c - z\<bar> \<le> 1 / 10 ^ 12),
       FLIPPED_OCS_to_wcs = (\<lambda>(x, y, z). (- x, y, - z)),
       VERTEXNAMES = [''vtx0'', ''vtx1'', ''vtx2'', ''vtx3''] \<rparr>"

text \<open>Concrete entities to run the model on: an entity that is alive and graphical, with
  the given attributes set and no defaults.\<close>

definition graphic_entity :: "string \<Rightarrow> (string \<rightharpoonup> dxfvalue) \<Rightarrow> entity" where
  "graphic_entity kind attrs =
     \<lparr> is_DXFGraphic = True, is_alive = True, dxftype = kind,
       dxf = \<lparr> attribs = attrs, defaults = Map.empty \<rparr> \<rparr>"

definition arc_attribs :: "vec3 \<Rightarrow> (string \<rightharpoonup> dxfvalue)" where
  "arc_attribs ext =
     [''center'' \<mapsto> Vec (1, 1, 0), ''start_angle'' \<mapsto> Num 30, ''end_angle'' \<mapsto> Num 120,
      ''thickness'' \<mapsto> Num 2, ''extrusion'' \<mapsto> Vec ext]"

definition circle_attribs :: "string \<rightharpoonup> dxfvalue" where
  "circle_attribs =
     [''center'' \<mapsto> Vec (1, 1, 0), ''radius'' \<mapsto> Num 1, ''extrusion'' \<mapsto> Vec (0, 0, - 1)]"

definition ellipse_attribs :: "string \<rightharpoonup> dxfvalue" where
  "ellipse_attribs =
     [''center'' \<mapsto> Vec (1, 1, 0), ''start_param'' \<mapsto> Num (1 / 2), ''end_param'' \<mapsto> Num 2,
      ''extrusion'' \<mapsto> Vec (0, 0, - 1)]"

section \<open>A runtime to run the tag layer on concrete values\<close>

text \<open>
  An instance of \<open>py_ops\<close> over the reals, for evaluating the definitions above on
  concrete inputs. It covers a part of what Python does: \<open>float_of_str\<close> accepts integer
  literals only, \<open>str_of_float\<close> is right for floats with an integral value below
  \<open>10 ^ 16\<close> in magnitude, \<open>repr_of_str\<close> for texts with no quote, backslash or control
  character. No theorem about the code depends on it.
\<close>

definition plain_ops :: "real py_ops" where
  "plain_ops =
     \<lparr> float_of_str = (\<lambda>s. map_option real_of_int (int_of_str s)),
       float_of_int = (\<lambda>i. Some (real_of_int i)),
       int_of_float = (\<lambda>x. Inr (if 0 \<le> x then \<lfloor>x\<rfloor> else \<lceil>x\<rceil>)),
       str_of_float = (\<lambda>x. str_int \<lfloor>x\<rfloor> @ ''.0''),
       repr_of_str = (\<lambda>s. [CHR 0x27] @ s @ [CHR 0x27]) \<rparr>"

section \<open>The type table: dispatch\<close>

lemma assign_codes_apply:
  "assign_codes k codes t c = (if c \<in> set codes then Some k else t c)"
  by (induction codes arbitrary: t) auto

lemma find_snoc:
  "find P (xs @ [x]) =
     (case find P xs of None \<Rightarrow> (if P x then Some x else None) | Some y \<Rightarrow> Some y)"
  by (induction xs) auto

lemma assign_rules_apply:
  "assign_rules types t c =
     (case find (\<lambda>(k, codes). c \<in> set codes) (rev types) of
        None \<Rightarrow> t c | Some (k, codes) \<Rightarrow> Some k)"
proof (induction types arbitrary: t)
  case Nil
  show ?case by simp
next
  case (Cons r rs)
  obtain k codes where r: "r = (k, codes)" by (cases r)
  show ?case
    by (simp add: r Cons.IH find_snoc assign_codes_apply split: option.splits)
qed

lemma build_type_table_last:
  "build_type_table types c =
     (case find (\<lambda>(k, codes). c \<in> set codes) (rev types) of
        None \<Rightarrow> None | Some (k, codes) \<Rightarrow> Some k)"
  unfolding build_type_table_def by (simp add: assign_rules_apply)

lemma in_py_range: "c \<in> set (py_range a b) \<longleftrightarrow> a \<le> c \<and> c < b"
  by (auto simp: py_range_def)

text \<open>The table, code by code; the last rule stands first, as the loops leave it.\<close>

lemma TYPE_TABLE_eq:
  "TYPE_TABLE c =
    (if 1060 \<le> c \<and> c < 1072 then Some Cint
     else if 1020 \<le> c \<and> c < 1060 then Some Cfloat
     else if 1010 \<le> c \<and> c < 1020 then Some Cpoint_tuple
     else if 460 \<le> c \<and> c < 470 then Some Cfloat
     else if 440 \<le> c \<and> c < 460 then Some Cint
     else if 420 \<le> c \<and> c < 430 then Some Cint
     else if 400 \<le> c \<and> c < 410 then Some Cint
     else if 370 \<le> c \<and> c < 390 then Some Cint
     else if 290 \<le> c \<and> c < 300 then Some Cint
     else if 270 \<le> c \<and> c < 290 then Some Cint
     else if 211 \<le> c \<and> c < 240 then Some Cfloat
     else if c = 210 then Some Cpoint_tuple
     else if 170 \<le> c \<and> c < 180 then Some Cint
     else if 160 \<le> c \<and> c < 170 then Some Cint
     else if 113 \<le> c \<and> c < 150 then Some Cfloat
     else if 110 \<le> c \<and> c < 113 then Some Cpoint_tuple
     else if 60 \<le> c \<and> c < 100 then Some Cint
     else if 20 \<le> c \<and> c < 60 then Some Cfloat
     else if 10 \<le> c \<and> c < 20 then Some Cpoint_tuple
     else None)"
  unfolding TYPE_TABLE_def build_type_table_def TYPE_TABLE_types_def
  by (simp add: assign_codes_apply in_py_range split del: if_split cong: if_cong)

lemma tag_type_rules:
  "\<forall>(k, codes) \<in> set TYPE_TABLE_types. \<forall>c \<in> set codes. tag_type c = k"
  unfolding TYPE_TABLE_types_def tag_type_def dict_get_def
  by (simp add: in_py_range TYPE_TABLE_eq)

lemma tag_type_no_rule:
  "(\<forall>(k, codes) \<in> set TYPE_TABLE_types. c \<notin> set codes) \<Longrightarrow> tag_type c = Custr"
  unfolding TYPE_TABLE_types_def tag_type_def dict_get_def
  by (simp add: in_py_range TYPE_TABLE_eq)

text \<open>
  Claim C1. For any list of rules, looking a code up in the table built from it (with the
  text caster as the default, as \<^verbatim>\<open>tag_type\<close> and \<^verbatim>\<open>cast_tag_value\<close> do) gives the caster of
  the last rule, in registration order, whose codes contain the code, and the text caster
  when no rule contains it. In the table of the module no two rules overlap: every code of
  every rule gets the caster of that rule, and a code of no rule gets the text caster.
  \<^verbatim>\<open>cast_tag_value\<close> with the default table calls the caster \<^verbatim>\<open>tag_type\<close> returns.
\<close>

theorem type_table_dispatch:
  "dict_get (build_type_table types) c Custr =
     (case find (\<lambda>(k, codes). c \<in> set codes) (rev types) of
        None \<Rightarrow> Custr | Some (k, codes) \<Rightarrow> k)
   \<and> ((\<forall>(k, codes) \<in> set types. c \<notin> set codes) \<longrightarrow>
        dict_get (build_type_table types) c Custr = Custr)
   \<and> (\<forall>(k, codes) \<in> set TYPE_TABLE_types. \<forall>c' \<in> set codes. tag_type c' = k)
   \<and> ((\<forall>(k, codes) \<in> set TYPE_TABLE_types. c \<notin> set codes) \<longrightarrow> tag_type c = Custr)
   \<and> cast_tag_value ops c v TYPE_TABLE = call ops (tag_type c) v"
proof -
  have last: "dict_get (build_type_table types) c Custr =
     (case find (\<lambda>(k, codes). c \<in> set codes) (rev types) of
        None \<Rightarrow> Custr | Some (k, codes) \<Rightarrow> k)"
    by (simp add: dict_get_def build_type_table_last split: option.splits)
  have none: "dict_get (build_type_table types) c Custr = Custr"
    if "\<forall>(k, codes) \<in> set types. c \<notin> set codes"
  proof -
    have "find (\<lambda>(k, codes). c \<in> set codes) (rev types) = None"
      using that by (auto simp: find_None_iff)
    then show ?thesis by (simp add: last)
  qed
  show ?thesis
    using last none tag_type_rules tag_type_no_rule
    by (simp add: cast_tag_value_def tag_type_def)
qed

theorem type_table_dispatch_witness:
  "dict_get (build_type_table [(Cfloat, [1, 2]), (Cint, [2, 3])]) 2 Custr = Cint
   \<and> dict_get (build_type_table [(Cfloat, [1, 2]), (Cint, [2, 3])]) 1 Custr = Cfloat
   \<and> dict_get (build_type_table [(Cfloat, [1, 2]), (Cint, [2, 3])]) 7 Custr = Custr
   \<and> tag_type 15 = Cpoint_tuple \<and> tag_type 40 = Cfloat \<and> tag_type 1071 = Cint
   \<and> tag_type 100 = Custr \<and> tag_type (- 1) = Custr"
proof -
  let ?rules = "[(Cfloat, [1, 2]), (Cint, [2, 3])]"
  have "dict_get (build_type_table ?rules) 2 Custr = Cint"
    using type_table_dispatch [of ?rules 2 plain_ops "PyInt 0"] by simp
  moreover have "dict_get (build_type_table ?rules) 1 Custr = Cfloat"
    using type_table_dispatch [of ?rules 1 plain_ops "PyInt 0"] by simp
  moreover have "dict_get (build_type_table ?rules) 7 Custr = Custr"
    using type_table_dispatch [of ?rules 7 plain_ops "PyInt 0"] by simp
  moreover have "tag_type 15 = Cpoint_tuple \<and> tag_type 40 = Cfloat \<and> tag_type 1071 = Cint"
    using type_table_dispatch [of "[]" 0 plain_ops "PyInt 0"]
    by (auto simp: TYPE_TABLE_types_def in_py_range)
  moreover have "tag_type 100 = Custr"
    using type_table_dispatch [of "[]" 100 plain_ops "PyInt 0"]
    by (simp add: TYPE_TABLE_types_def in_py_range)
  moreover have "tag_type (- 1) = Custr"
    using type_table_dispatch [of "[]" "- 1" plain_ops "PyInt 0"]
    by (simp add: TYPE_TABLE_types_def in_py_range)
  ultimately show ?thesis by simp
qed

section \<open>Point codes and pointer codes\<close>

text \<open>
  Claim C8. \<^verbatim>\<open>is_point_code\<close> holds exactly for 10..19, 110, 111, 112, 210 and 1010..1019;
  the companion codes of a point code (ten and twenty above it), such as 20, are not
  point codes. 390 is a pointer code and 10 is not; the pointer codes are 320..369,
  390..399, 480, 481 and 1005.
\<close>

theorem point_and_pointer_codes:
  "(is_point_code c \<longleftrightarrow>
      (10 \<le> c \<and> c \<le> 19) \<or> c = 110 \<or> c = 111 \<or> c = 112 \<or> c = 210 \<or> (1010 \<le> c \<and> c \<le> 1019))
   \<and> (is_point_code c \<longrightarrow> \<not> is_point_code (c + 10) \<and> \<not> is_point_code (c + 20))
   \<and> is_point_code 10 \<and> \<not> is_point_code 20
   \<and> is_pointer_code 390 \<and> \<not> is_pointer_code 10
   \<and> (is_pointer_code c \<longleftrightarrow>
        (320 \<le> c \<and> c < 370) \<or> (390 \<le> c \<and> c < 400) \<or> c = 480 \<or> c = 481 \<or> c = 1005)"
proof -
  have point: "is_point_code d \<longleftrightarrow>
      (10 \<le> d \<and> d \<le> 19) \<or> d = 110 \<or> d = 111 \<or> d = 112 \<or> d = 210 \<or> (1010 \<le> d \<and> d \<le> 1019)"
    for d
    unfolding is_point_code_def POINT_CODES_def
    by (simp only: list.set insert_iff empty_iff) presburger
  have pointer: "is_pointer_code d \<longleftrightarrow>
      (320 \<le> d \<and> d < 370) \<or> (390 \<le> d \<and> d < 400) \<or> d = 480 \<or> d = 481 \<or> d = 1005"
    for d
    unfolding is_pointer_code_def POINTER_CODES_def by (auto simp: in_py_range)
  have companions: "\<not> is_point_code (c + 10) \<and> \<not> is_point_code (c + 20)" if "is_point_code c"
    using that unfolding point by auto
  show ?thesis
    using companions by (simp add: point pointer)
qed

theorem point_and_pointer_codes_witness:
  "is_point_code 10 \<and> \<not> is_point_code (10 + 10) \<and> \<not> is_point_code (10 + 20)
   \<and> is_point_code 1019 \<and> \<not> is_point_code 113 \<and> is_pointer_code 1005"
  using point_and_pointer_codes [of 10] point_and_pointer_codes [of 1019]
    point_and_pointer_codes [of 113] point_and_pointer_codes [of 1005]
  by simp

section \<open>The upright transform: what the tools compute\<close>

lemma flip_thickness_eq:
  "flip_thickness d =
     Some (d\<lparr>attribs := (attribs d)(''thickness'' := map_option neg_value (attribs d ''thickness''))\<rparr>)"
  by (cases "attribs d ''thickness''")
     (simp_all add: flip_thickness_def hasattr_def getattr_def setattr_def fun_upd_idem)

lemma flip_circle_eq:
  assumes "getattr d ''center'' = Some (Vec c)"
  shows "flip_circle M d =
     Some (d\<lparr>attribs := (attribs d)
        (''center'' \<mapsto> Vec (FLIPPED_OCS_to_wcs M c),
         ''thickness'' := map_option neg_value (attribs d ''thickness''),
         ''extrusion'' := None)\<rparr>)"
  using assms
  by (simp add: flip_circle_def flip_vertex_def flip_thickness_eq setattr_def discard_def)

lemma flip_circle_no_extrusion:
  "flip_circle M d = Some d1 \<Longrightarrow> \<not> hasattr d1 ''extrusion''"
  by (auto simp: flip_circle_def flip_thickness_eq setattr_def discard_def hasattr_def
      split: bind_splits)

lemma upright_no_extrusion:
  "\<not> hasattr (dxf e) ''extrusion'' \<Longrightarrow> upright M e = Some e"
  by (simp add: upright_def)

lemma simple_circle: "SIMPLE_UPRIGHT_TOOLS M ''CIRCLE'' = Some (flip_circle M)"
  by (simp add: SIMPLE_UPRIGHT_TOOLS_def)

lemma simple_arc: "SIMPLE_UPRIGHT_TOOLS M ''ARC'' = Some (flip_arc M)"
  by (simp add: SIMPLE_UPRIGHT_TOOLS_def)

lemma simple_ellipse: "SIMPLE_UPRIGHT_TOOLS M ''ELLIPSE'' = Some flip_ellipse"
  by (simp add: SIMPLE_UPRIGHT_TOOLS_def)

lemma upright_circle_cases:
  assumes "dxftype e = ''CIRCLE''"
  shows "upright M e = None \<or> upright M e = Some e
       \<or> (\<exists>d1. upright M e = Some (e\<lparr>dxf := d1\<rparr>) \<and> \<not> hasattr d1 ''extrusion'')"
  using assms
  by (auto simp: upright_def simple_circle dest: flip_circle_no_extrusion split: bind_splits)

lemma upright_circle_twice:
  assumes "dxftype e = ''CIRCLE''"
  shows "(upright M e \<bind> upright M) = upright M e"
  using upright_circle_cases [OF assms, of M]
  by (auto simp: upright_no_extrusion)

lemma upright_flip_case:
  assumes "is_DXFGraphic e" "is_alive e"
    "attribs (dxf e) ''extrusion'' = Some (Vec v)"
    "\<exists>u. normalize_vec M v = Some u \<and> isclose M u FLIPPED_Z_AXIS"
  shows "upright M e =
     (case SIMPLE_UPRIGHT_TOOLS M (dxftype e) of
        Some simple_tool \<Rightarrow> map_option (\<lambda>d. e\<lparr>dxf := d\<rparr>) (simple_tool (dxf e))
      | None \<Rightarrow>
          (case COMPLEX_UPRIGHT_TOOLS (dxftype e) of
             Some (Some complex_tool) \<Rightarrow> complex_tool e
           | _ \<Rightarrow> Some e))"
  using assms by (auto simp: upright_def hasattr_def getattr_def)

lemma complex_kinds:
  assumes "k \<in> {''LWPOLYLINE'', ''POLYLINE'', ''HATCH'', ''MPOLYGON'', ''INSERT''}"
  shows "SIMPLE_UPRIGHT_TOOLS M k = None"
    and "COMPLEX_UPRIGHT_TOOLS k = Some (Some flip_complex_entity) \<or> COMPLEX_UPRIGHT_TOOLS k = Some None"
  using assms by (auto simp: SIMPLE_UPRIGHT_TOOLS_def COMPLEX_UPRIGHT_TOOLS_def)

lemma flip_arc_eq:
  assumes "getattr d ''center'' = Some (Vec c)"
    and "getattr d ''start_angle'' = Some (Num s)"
    and "getattr d ''end_angle'' = Some (Num t)"
  shows "flip_arc M d =
     Some (d\<lparr>attribs := (attribs d)
        (''center'' \<mapsto> Vec (FLIPPED_OCS_to_wcs M c),
         ''thickness'' := map_option neg_value (attribs d ''thickness''),
         ''extrusion'' := None,
         ''end_angle'' \<mapsto> Num (flip_deg_angle s),
         ''start_angle'' \<mapsto> Num (flip_deg_angle t))\<rparr>)"
proof -
  let ?d1 = "d\<lparr>attribs := (attribs d)
        (''center'' \<mapsto> Vec (FLIPPED_OCS_to_wcs M c),
         ''thickness'' := map_option neg_value (attribs d ''thickness''),
         ''extrusion'' := None)\<rparr>"
  have circle: "flip_circle M d = Some ?d1"
    by (rule flip_circle_eq [OF assms(1)])
  have start: "getattr ?d1 ''start_angle'' = Some (Num s)"
    using assms(2) by (simp add: getattr_def split: option.splits)
  have stop: "getattr ?d1 ''end_angle'' = Some (Num t)"
    using assms(3) by (simp add: getattr_def split: option.splits)
  show ?thesis
    by (simp add: flip_arc_def circle start stop setattr_def)
qed

lemma flip_ellipse_eq:
  assumes "getattr d ''start_param'' = Some (Num s)"
    and "getattr d ''end_param'' = Some (Num t)"
  shows "flip_ellipse d =
     Some (d\<lparr>attribs := (attribs d)
        (''end_param'' \<mapsto> Num (- s), ''start_param'' \<mapsto> Num (- t), ''extrusion'' := None)\<rparr>)"
  using assms by (simp add: flip_ellipse_def setattr_def discard_def)

lemma plain_math_flipped:
  "\<exists>u. normalize_vec plain_math (0, 0, - 1) = Some u \<and> isclose plain_math u FLIPPED_Z_AXIS"
  by (simp add: plain_math_def FLIPPED_Z_AXIS_def Z_AXIS_def)

lemma plain_math_upright:
  "normalize_vec plain_math (0, 0, 1) = Some (0, 0, 1)
   \<and> \<not> isclose plain_math (0, 0, 1) FLIPPED_Z_AXIS"
  by (simp add: plain_math_def FLIPPED_Z_AXIS_def Z_AXIS_def)

lemma plain_math_null: "normalize_vec plain_math (0, 0, 0) = None"
  by (simp add: plain_math_def)

section \<open>The upright transform: the claims\<close>

text \<open>
  Claim C2. An arc that is alive and graphical, whose extrusion is set to a vector that
  normalizes to the flipped z axis (within the tolerance of \<^verbatim>\<open>isclose\<close>), and whose center
  reads as a vector and whose angles read as numbers, is rewritten so: the new end angle is
  the flipped old start angle, the new start angle is the flipped old end angle, where
  flipping an angle \<open>a\<close> gives \<open>180 - a\<close> for \<open>a \<ge> 0\<close> and \<open>-180 - a\<close> for \<open>a < 0\<close>; the
  center goes through \<^verbatim>\<open>FLIPPED_OCS.to_wcs\<close>; a thickness that is set is negated; the
  extrusion is removed; nothing else changes. Start angle 30 and end angle 120 become start
  angle 60 and end angle 150.
\<close>

theorem upright_arc:
  assumes "dxftype e = ''ARC''" and "is_DXFGraphic e" and "is_alive e"
    and "attribs (dxf e) ''extrusion'' = Some (Vec v)"
    and "\<exists>u. normalize_vec M v = Some u \<and> isclose M u FLIPPED_Z_AXIS"
    and "getattr (dxf e) ''center'' = Some (Vec c)"
    and "getattr (dxf e) ''start_angle'' = Some (Num s)"
    and "getattr (dxf e) ''end_angle'' = Some (Num t)"
  shows "upright M e =
      Some (e\<lparr>dxf := (dxf e)\<lparr>attribs := (attribs (dxf e))
        (''center'' \<mapsto> Vec (FLIPPED_OCS_to_wcs M c),
         ''thickness'' := map_option neg_value (attribs (dxf e) ''thickness''),
         ''extrusion'' := None,
         ''end_angle'' \<mapsto> Num (flip_deg_angle s),
         ''start_angle'' \<mapsto> Num (flip_deg_angle t))\<rparr>\<rparr>)
    \<and> flip_deg_angle a = (if 0 \<le> a then 180 - a else - 180 - a)
    \<and> flip_deg_angle 120 = 60 \<and> flip_deg_angle 30 = 150
    \<and> neg_value (Num h) = Num (- h)"
  by (simp add: upright_flip_case [OF assms(2-5)] assms(1) simple_arc
      flip_arc_eq [OF assms(6-8)] flip_deg_angle_def)

theorem upright_arc_witness:
  "upright plain_math (graphic_entity ''ARC'' (arc_attribs (0, 0, - 1))) =
     Some (graphic_entity ''ARC''
       [''center'' \<mapsto> Vec (- 1, 1, 0), ''start_angle'' \<mapsto> Num 60, ''end_angle'' \<mapsto> Num 150,
        ''thickness'' \<mapsto> Num (- 2)])"
proof -
  let ?e = "graphic_entity ''ARC'' (arc_attribs (0, 0, - 1))"
  have "upright plain_math ?e =
      Some (?e\<lparr>dxf := (dxf ?e)\<lparr>attribs := (attribs (dxf ?e))
        (''center'' \<mapsto> Vec (FLIPPED_OCS_to_wcs plain_math (1, 1, 0)),
         ''thickness'' := map_option neg_value (attribs (dxf ?e) ''thickness''),
         ''extrusion'' := None,
         ''end_angle'' \<mapsto> Num (flip_deg_angle 30),
         ''start_angle'' \<mapsto> Num (flip_deg_angle 120))\<rparr>\<rparr>)"
    using upright_arc [of ?e "(0, 0, - 1)" plain_math "(1, 1, 0)" 30 120] plain_math_flipped
    by (simp add: graphic_entity_def arc_attribs_def getattr_def)
  also have "\<dots> = Some (graphic_entity ''ARC''
       [''center'' \<mapsto> Vec (- 1, 1, 0), ''start_angle'' \<mapsto> Num 60, ''end_angle'' \<mapsto> Num 150,
        ''thickness'' \<mapsto> Num (- 2)])"
    by (auto simp: graphic_entity_def arc_attribs_def plain_math_def flip_deg_angle_def fun_eq_iff)
  finally show ?thesis .
qed

text \<open>
  What the guard does when nothing is raised: the transform returns the entity as it is
  when the entity is not graphical, or not alive, or has no extrusion set, or its
  extrusion is a vector whose unit vector is not close to the flipped z axis, or is close
  to it and no tool is registered for the kind of the entity.
\<close>

lemma upright_guard_noop:
  assumes "\<not> is_DXFGraphic e \<or> \<not> is_alive e \<or> \<not> hasattr (dxf e) ''extrusion''
     \<or> (\<exists>v u. attribs (dxf e) ''extrusion'' = Some (Vec v) \<and> normalize_vec M v = Some u
           \<and> (\<not> isclose M u FLIPPED_Z_AXIS
              \<or> (dxftype e \<notin> dom (SIMPLE_UPRIGHT_TOOLS M) \<and> dxftype e \<notin> dom COMPLEX_UPRIGHT_TOOLS)))"
  shows "upright M e = Some e"
proof (cases "is_DXFGraphic e \<and> is_alive e \<and> hasattr (dxf e) ''extrusion''")
  case False
  then show ?thesis by (simp add: upright_def)
next
  case True
  with assms obtain v u where ex: "attribs (dxf e) ''extrusion'' = Some (Vec v)"
    and unit: "normalize_vec M v = Some u"
    and rest: "\<not> isclose M u FLIPPED_Z_AXIS
       \<or> (dxftype e \<notin> dom (SIMPLE_UPRIGHT_TOOLS M) \<and> dxftype e \<notin> dom COMPLEX_UPRIGHT_TOOLS)"
    by blast
  show ?thesis
  proof (cases "isclose M u FLIPPED_Z_AXIS")
    case False
    with True ex unit show ?thesis by (simp add: upright_def getattr_def)
  next
    case close: True
    with rest have "SIMPLE_UPRIGHT_TOOLS M (dxftype e) = None"
      and "COMPLEX_UPRIGHT_TOOLS (dxftype e) = None"
      by (auto simp: dom_def)
    moreover have "\<exists>u. normalize_vec M v = Some u \<and> isclose M u FLIPPED_Z_AXIS"
      using unit close by blast
    ultimately show ?thesis using True ex by (simp add: upright_flip_case)
  qed
qed

lemma upright_guard_noop_examples:
  "upright plain_math (graphic_entity ''ARC'' (arc_attribs (0, 0, 1))) =
     Some (graphic_entity ''ARC'' (arc_attribs (0, 0, 1)))
   \<and> upright plain_math (graphic_entity ''TEXT'' (arc_attribs (0, 0, - 1))) =
     Some (graphic_entity ''TEXT'' (arc_attribs (0, 0, - 1)))
   \<and> upright plain_math ((graphic_entity ''ARC'' (arc_attribs (0, 0, - 1)))\<lparr>is_alive := False\<rparr>) =
     Some ((graphic_entity ''ARC'' (arc_attribs (0, 0, - 1)))\<lparr>is_alive := False\<rparr>)
   \<and> upright plain_math ((graphic_entity ''ARC'' (arc_attribs (0, 0, - 1)))\<lparr>is_DXFGraphic := False\<rparr>) =
     Some ((graphic_entity ''ARC'' (arc_attribs (0, 0, - 1)))\<lparr>is_DXFGraphic := False\<rparr>)
   \<and> upright plain_math (graphic_entity ''ARC'' [''center'' \<mapsto> Vec (1, 1, 0)]) =
     Some (graphic_entity ''ARC'' [''center'' \<mapsto> Vec (1, 1, 0)])"
proof -
  have 1: "upright plain_math (graphic_entity ''ARC'' (arc_attribs (0, 0, 1))) =
     Some (graphic_entity ''ARC'' (arc_attribs (0, 0, 1)))"
    using plain_math_upright
    by (intro upright_guard_noop) (simp add: graphic_entity_def arc_attribs_def)
  have 2: "upright plain_math (graphic_entity ''TEXT'' (arc_attribs (0, 0, - 1))) =
     Some (graphic_entity ''TEXT'' (arc_attribs (0, 0, - 1)))"
    using plain_math_flipped
    by (intro upright_guard_noop)
       (auto simp: graphic_entity_def arc_attribs_def dom_def
          SIMPLE_UPRIGHT_TOOLS_def COMPLEX_UPRIGHT_TOOLS_def)
  have 3: "upright plain_math ((graphic_entity ''ARC'' (arc_attribs (0, 0, - 1)))\<lparr>is_alive := False\<rparr>) =
     Some ((graphic_entity ''ARC'' (arc_attribs (0, 0, - 1)))\<lparr>is_alive := False\<rparr>)"
    by (intro upright_guard_noop) (simp add: graphic_entity_def)
  have 4: "upright plain_math ((graphic_entity ''ARC'' (arc_attribs (0, 0, - 1)))\<lparr>is_DXFGraphic := False\<rparr>) =
     Some ((graphic_entity ''ARC'' (arc_attribs (0, 0, - 1)))\<lparr>is_DXFGraphic := False\<rparr>)"
    by (intro upright_guard_noop) (simp add: graphic_entity_def)
  have 5: "upright plain_math (graphic_entity ''ARC'' [''center'' \<mapsto> Vec (1, 1, 0)]) =
     Some (graphic_entity ''ARC'' [''center'' \<mapsto> Vec (1, 1, 0)])"
    by (intro upright_guard_noop) (simp add: graphic_entity_def hasattr_def)
  from 1 2 3 4 5 show ?thesis by simp
qed

text \<open>
  Claim C4 says that the transform leaves the entity unchanged and raises nothing whenever
  the guard fails or the kind has no tool. The code normalizes the extrusion before it
  compares it and before it looks at the kind: for an entity that is alive and graphical
  and whose extrusion is set to a vector that \<^verbatim>\<open>Vec3.normalize\<close> rejects, the null vector,
  the transform raises, whatever the kind of the entity, also for a kind with no tool.
\<close>

theorem upright_raises_on_null_extrusion:
  assumes "is_DXFGraphic e" and "is_alive e"
    and "attribs (dxf e) ''extrusion'' = Some (Vec v)"
    and "normalize_vec M v = None"
  shows "upright M e = None"
  using assms by (simp add: upright_def hasattr_def getattr_def)

theorem upright_raises_on_null_extrusion_witness:
  "upright plain_math (graphic_entity ''TEXT'' (arc_attribs (0, 0, 0))) = None
   \<and> upright plain_math (graphic_entity ''ARC'' (arc_attribs (0, 0, 0))) = None"
  using upright_raises_on_null_extrusion
      [of "graphic_entity ''TEXT'' (arc_attribs (0, 0, 0))" "(0, 0, 0)" plain_math]
    upright_raises_on_null_extrusion
      [of "graphic_entity ''ARC'' (arc_attribs (0, 0, 0))" "(0, 0, 0)" plain_math]
    plain_math_null
  by (simp add: graphic_entity_def arc_attribs_def)

text \<open>
  Claim C6. On a circle, running the transform on its own result gives that result again:
  two runs equal one. When the circle passes the guard and its center reads as a vector,
  the first run succeeds, its result has the center flipped, a set thickness negated and
  no extrusion, and the second run returns that result unchanged, the guard rejecting it.
\<close>

theorem upright_circle_idempotent:
  assumes "dxftype e = ''CIRCLE''"
  shows "(upright M e \<bind> upright M) = upright M e
     \<and> (is_DXFGraphic e \<and> is_alive e \<and> attribs (dxf e) ''extrusion'' = Some (Vec v)
          \<and> (\<exists>u. normalize_vec M v = Some u \<and> isclose M u FLIPPED_Z_AXIS)
          \<and> getattr (dxf e) ''center'' = Some (Vec c) \<longrightarrow>
        (\<exists>e1. upright M e = Some e1
           \<and> e1 = e\<lparr>dxf := (dxf e)\<lparr>attribs := (attribs (dxf e))
                  (''center'' \<mapsto> Vec (FLIPPED_OCS_to_wcs M c),
                   ''thickness'' := map_option neg_value (attribs (dxf e) ''thickness''),
                   ''extrusion'' := None)\<rparr>\<rparr>
           \<and> \<not> hasattr (dxf e1) ''extrusion''
           \<and> upright M e1 = Some e1))"
proof -
  have run: "\<exists>e1. upright M e = Some e1
           \<and> e1 = e\<lparr>dxf := (dxf e)\<lparr>attribs := (attribs (dxf e))
                  (''center'' \<mapsto> Vec (FLIPPED_OCS_to_wcs M c),
                   ''thickness'' := map_option neg_value (attribs (dxf e) ''thickness''),
                   ''extrusion'' := None)\<rparr>\<rparr>
           \<and> \<not> hasattr (dxf e1) ''extrusion''
           \<and> upright M e1 = Some e1"
    if g: "is_DXFGraphic e" "is_alive e" "attribs (dxf e) ''extrusion'' = Some (Vec v)"
      "\<exists>u. normalize_vec M v = Some u \<and> isclose M u FLIPPED_Z_AXIS"
      and c: "getattr (dxf e) ''center'' = Some (Vec c)"
  proof -
    let ?e1 = "e\<lparr>dxf := (dxf e)\<lparr>attribs := (attribs (dxf e))
                  (''center'' \<mapsto> Vec (FLIPPED_OCS_to_wcs M c),
                   ''thickness'' := map_option neg_value (attribs (dxf e) ''thickness''),
                   ''extrusion'' := None)\<rparr>\<rparr>"
    have 1: "upright M e = Some ?e1"
      by (simp add: upright_flip_case [OF g] assms simple_circle flip_circle_eq [OF c])
    have 2: "\<not> hasattr (dxf ?e1) ''extrusion''"
      by (simp add: hasattr_def)
    from 1 2 show ?thesis by (simp add: upright_no_extrusion)
  qed
  show ?thesis
    using upright_circle_twice [OF assms, of M] run by blast
qed

theorem upright_circle_idempotent_witness:
  "(upright plain_math (graphic_entity ''CIRCLE'' circle_attribs) \<bind> upright plain_math) =
      upright plain_math (graphic_entity ''CIRCLE'' circle_attribs)
   \<and> upright plain_math (graphic_entity ''CIRCLE'' circle_attribs) =
      Some (graphic_entity ''CIRCLE'' [''center'' \<mapsto> Vec (- 1, 1, 0), ''radius'' \<mapsto> Num 1])
   \<and> upright plain_math
        (graphic_entity ''CIRCLE'' [''center'' \<mapsto> Vec (- 1, 1, 0), ''radius'' \<mapsto> Num 1]) =
      Some (graphic_entity ''CIRCLE'' [''center'' \<mapsto> Vec (- 1, 1, 0), ''radius'' \<mapsto> Num 1])"
proof -
  let ?e = "graphic_entity ''CIRCLE'' circle_attribs"
  let ?r = "graphic_entity ''CIRCLE'' [''center'' \<mapsto> Vec (- 1, 1, 0), ''radius'' \<mapsto> Num 1]"
  have kind: "dxftype ?e = ''CIRCLE''"
    by (simp add: graphic_entity_def)
  note inst = upright_circle_idempotent [OF kind, of plain_math "(0, 0, - 1)" "(1, 1, 0)"]
  have pre: "is_DXFGraphic ?e \<and> is_alive ?e \<and> attribs (dxf ?e) ''extrusion'' = Some (Vec (0, 0, - 1))
     \<and> (\<exists>u. normalize_vec plain_math (0, 0, - 1) = Some u \<and> isclose plain_math u FLIPPED_Z_AXIS)
     \<and> getattr (dxf ?e) ''center'' = Some (Vec (1, 1, 0))"
    using plain_math_flipped by (simp add: graphic_entity_def circle_attribs_def getattr_def)
  have res: "?e\<lparr>dxf := (dxf ?e)\<lparr>attribs := (attribs (dxf ?e))
                  (''center'' \<mapsto> Vec (FLIPPED_OCS_to_wcs plain_math (1, 1, 0)),
                   ''thickness'' := map_option neg_value (attribs (dxf ?e) ''thickness''),
                   ''extrusion'' := None)\<rparr>\<rparr> = ?r"
    by (auto simp: graphic_entity_def circle_attribs_def plain_math_def fun_eq_iff)
  from inst pre have "upright plain_math ?e = Some ?r \<and> upright plain_math ?r = Some ?r"
    unfolding res by blast
  with inst show ?thesis by blast
qed

text \<open>
  Claim C7. An ellipse that passes the guard, with start and end parameter reading as
  numbers, gets the end parameter \<open>- start\<close> and the start parameter \<open>- end\<close>, loses its
  extrusion, and keeps every other attribute as it was. Start 0.5 and end 2.0 become start
  -2.0 and end -0.5.
\<close>

theorem upright_ellipse:
  assumes "dxftype e = ''ELLIPSE''" and "is_DXFGraphic e" and "is_alive e"
    and "attribs (dxf e) ''extrusion'' = Some (Vec v)"
    and "\<exists>u. normalize_vec M v = Some u \<and> isclose M u FLIPPED_Z_AXIS"
    and "getattr (dxf e) ''start_param'' = Some (Num s)"
    and "getattr (dxf e) ''end_param'' = Some (Num t)"
  shows "\<exists>e1. upright M e = Some e1
     \<and> e1 = e\<lparr>dxf := (dxf e)\<lparr>attribs := (attribs (dxf e))
          (''end_param'' \<mapsto> Num (- s), ''start_param'' \<mapsto> Num (- t), ''extrusion'' := None)\<rparr>\<rparr>
     \<and> attribs (dxf e1) ''end_param'' = Some (Num (- s))
     \<and> attribs (dxf e1) ''start_param'' = Some (Num (- t))
     \<and> attribs (dxf e1) ''extrusion'' = None
     \<and> (\<forall>name. name \<notin> {''start_param'', ''end_param'', ''extrusion''} \<longrightarrow>
           attribs (dxf e1) name = attribs (dxf e) name)"
  by (simp add: upright_flip_case [OF assms(2-5)] assms(1) simple_ellipse
      flip_ellipse_eq [OF assms(6,7)])

theorem upright_ellipse_witness:
  "upright plain_math (graphic_entity ''ELLIPSE'' ellipse_attribs) =
     Some (graphic_entity ''ELLIPSE''
       [''center'' \<mapsto> Vec (1, 1, 0), ''start_param'' \<mapsto> Num (- 2), ''end_param'' \<mapsto> Num (- (1 / 2))])"
proof -
  let ?e = "graphic_entity ''ELLIPSE'' ellipse_attribs"
  have "\<exists>e1. upright plain_math ?e = Some e1
     \<and> e1 = ?e\<lparr>dxf := (dxf ?e)\<lparr>attribs := (attribs (dxf ?e))
          (''end_param'' \<mapsto> Num (- (1 / 2)), ''start_param'' \<mapsto> Num (- 2), ''extrusion'' := None)\<rparr>\<rparr>"
    using upright_ellipse [of ?e "(0, 0, - 1)" plain_math "1 / 2" 2] plain_math_flipped
    by (simp add: graphic_entity_def ellipse_attribs_def getattr_def)
  then have "upright plain_math ?e = Some (?e\<lparr>dxf := (dxf ?e)\<lparr>attribs := (attribs (dxf ?e))
          (''end_param'' \<mapsto> Num (- (1 / 2)), ''start_param'' \<mapsto> Num (- 2), ''extrusion'' := None)\<rparr>\<rparr>)"
    by blast
  also have "\<dots> = Some (graphic_entity ''ELLIPSE''
       [''center'' \<mapsto> Vec (1, 1, 0), ''start_param'' \<mapsto> Num (- 2), ''end_param'' \<mapsto> Num (- (1 / 2))])"
    by (auto simp: graphic_entity_def ellipse_attribs_def fun_eq_iff)
  finally show ?thesis .
qed

text \<open>
  Claim C10. An entity of kind LWPOLYLINE, POLYLINE, HATCH, MPOLYGON or INSERT that passes
  the guard with an extrusion normalizing to the flipped z axis is returned unchanged: the
  kind is a key of \<^verbatim>\<open>COMPLEX_UPRIGHT_TOOLS\<close> and of no simple tool, its tool rewrites
  nothing, the extrusion stays set, and a second run does the same again.
\<close>

theorem upright_complex_kinds:
  assumes "dxftype e \<in> {''LWPOLYLINE'', ''POLYLINE'', ''HATCH'', ''MPOLYGON'', ''INSERT''}"
    and "is_DXFGraphic e" and "is_alive e"
    and "attribs (dxf e) ''extrusion'' = Some (Vec v)"
    and "\<exists>u. normalize_vec M v = Some u \<and> isclose M u FLIPPED_Z_AXIS"
  shows "upright M e = Some e \<and> hasattr (dxf e) ''extrusion''
     \<and> (upright M e \<bind> upright M) = Some e
     \<and> dxftype e \<in> dom COMPLEX_UPRIGHT_TOOLS \<and> dxftype e \<notin> dom (SIMPLE_UPRIGHT_TOOLS M)"
proof -
  have up: "upright M e = Some e"
    using complex_kinds(1) [OF assms(1), of M] complex_kinds(2) [OF assms(1)]
    by (auto simp: upright_flip_case [OF assms(2-5)] flip_complex_entity_def)
  have "hasattr (dxf e) ''extrusion''"
    using assms(4) by (simp add: hasattr_def)
  then show ?thesis
    using up complex_kinds(1) [OF assms(1), of M] complex_kinds(2) [OF assms(1)]
    by (auto simp: dom_def)
qed

theorem upright_complex_kinds_witness:
  "upright plain_math (graphic_entity ''LWPOLYLINE'' circle_attribs) =
      Some (graphic_entity ''LWPOLYLINE'' circle_attribs)
   \<and> hasattr (dxf (graphic_entity ''LWPOLYLINE'' circle_attribs)) ''extrusion''
   \<and> upright plain_math (graphic_entity ''HATCH'' circle_attribs) =
      Some (graphic_entity ''HATCH'' circle_attribs)"
proof -
  have "\<exists>u. normalize_vec plain_math (0, 0, - 1) = Some u \<and> isclose plain_math u FLIPPED_Z_AXIS"
    by (rule plain_math_flipped)
  then show ?thesis
    using upright_complex_kinds [of "graphic_entity ''LWPOLYLINE'' circle_attribs" "(0, 0, - 1)" plain_math]
      upright_complex_kinds [of "graphic_entity ''HATCH'' circle_attribs" "(0, 0, - 1)" plain_math]
    by (simp add: graphic_entity_def circle_attribs_def)
qed

section \<open>Tags: the text record and decoding\<close>

lemma digit_char_not_newline: "d < 10 \<Longrightarrow> digit_char d \<noteq> newline"
proof -
  assume "d < 10"
  then have "d \<in> {0,1,2,3,4,5,6,7,8,9}" by auto
  then show ?thesis by (auto simp: digit_char_def newline_def)
qed

lemma str_nat_no_newline: "newline \<notin> set (str_nat n)"
proof (induction n rule: str_nat.induct)
  case (1 n)
  show ?case
  proof (cases "n < 10")
    case True
    then show ?thesis using digit_char_not_newline [of n] by (simp add: str_nat.simps)
  next
    case False
    then show ?thesis
      using 1 digit_char_not_newline [of "n mod 10"]
      by (subst str_nat.simps) simp
  qed
qed

lemma str_int_no_newline: "newline \<notin> set (str_int i)"
  using str_nat_no_newline by (simp add: str_int_def newline_def)

lemma fmt_3d_no_newline: "newline \<notin> set (fmt_3d code)"
  using str_int_no_newline [of code] by (simp add: fmt_3d_def Let_def newline_def)

lemma fmt_3d_length: "length (fmt_3d code) = max 3 (length (str_int code))"
  by (simp add: fmt_3d_def Let_def)

lemma count_newline_fmt: "count_list (fmt_3d code) newline = 0"
  using fmt_3d_no_newline by (simp add: count_list_0_iff)

lemma fmt_3d_examples:
  "fmt_3d 1 = [CHR '' '', CHR '' '', CHR ''1'']" "fmt_3d 10 = '' 10''" "fmt_3d 20 = '' 20''"
  "fmt_3d 30 = '' 30''" "fmt_3d 1071 = ''1071''" "fmt_3d (- 5) = '' -5''" "str_int (- 5) = ''-5''"
  "str_int 1 = ''1''" "str_int 2 = ''2''" "str_int 3 = ''3''"
  by code_simp+

lemma TYPE_TABLE_examples:
  "TYPE_TABLE 60 = Some Cint" "TYPE_TABLE 100 = None" "TYPE_TABLE 40 = Some Cfloat"
  by (simp_all add: TYPE_TABLE_eq)

lemma int_of_str_examples:
  "int_of_str ''abc'' = None" "int_of_str ''42'' = Some 42" "int_of_str '' -1_000 '' = Some (- 1000)"
  "int_of_str [CHR 0x1C, CHR ''7'', CHR 0x1F] = None"
  by (simp_all add: int_of_str_def strip_def is_space_def nat_of_str_def digit_of_def)

text \<open>
  Claim C9, as the code has it. For every scalar tag, \<^verbatim>\<open>dxfstr\<close> is the code in decimal,
  padded on the left with spaces to at least three characters and never cut, a newline,
  the text of the value, a newline: the format \<^verbatim>\<open>'%3d\n%s\n'\<close>. The line of the code holds
  no newline, so the record has two newlines more than the text of the value, and it is
  exactly two lines when that text holds no newline.
\<close>

theorem scalar_tag_record:
  "dxfstr ops (DXFTag code v) =
      replicate (3 - length (str_int code)) CHR '' '' @ str_int code @ [newline]
        @ py_str ops v @ [newline]
   \<and> dxfstr ops (DXFTag code v) = fmt_3d code @ [newline] @ py_str ops v @ [newline]
   \<and> length (fmt_3d code) = max 3 (length (str_int code))
   \<and> newline \<notin> set (fmt_3d code)
   \<and> count_list (dxfstr ops (DXFTag code v)) newline = 2 + count_list (py_str ops v) newline
   \<and> (newline \<notin> set (py_str ops v) \<longrightarrow> count_list (dxfstr ops (DXFTag code v)) newline = 2)"
  using fmt_3d_no_newline [of code]
  by (simp add: TAG_STRING_FORMAT_def fmt_3d_length count_newline_fmt count_list_0_iff)
     (simp add: fmt_3d_def Let_def)

theorem scalar_tag_record_witness:
  "dxfstr plain_ops (DXFTag 1071 (PyInt (- 5))) = ''1071'' @ [newline] @ ''-5'' @ [newline]
   \<and> count_list (dxfstr plain_ops (DXFTag 1071 (PyInt (- 5)))) newline = 2"
proof -
  have nl: "newline \<notin> set (py_str plain_ops (PyInt (- 5)))"
    by (simp add: fmt_3d_examples newline_def)
  have eq: "dxfstr plain_ops (DXFTag 1071 (PyInt (- 5))) =
      fmt_3d 1071 @ [newline] @ py_str plain_ops (PyInt (- 5)) @ [newline]"
    using scalar_tag_record [of plain_ops 1071 "PyInt (- 5)"] by blast
  have two: "count_list (dxfstr plain_ops (DXFTag 1071 (PyInt (- 5)))) newline = 2"
    using scalar_tag_record [of plain_ops 1071 "PyInt (- 5)"] nl by blast
  have "fmt_3d 1071 @ [newline] @ py_str plain_ops (PyInt (- 5)) @ [newline] =
      ''1071'' @ [newline] @ ''-5'' @ [newline]"
    by (simp add: fmt_3d_examples)
  with eq two show ?thesis by (simp only:)
qed

text \<open>
  Claim C9 as stated, two lines for every scalar tag, fails for a value whose text holds a
  newline: the tag \<^verbatim>\<open>DXFTag(1, 'a\nb')\<close> serializes to three lines.
\<close>

theorem scalar_tag_lines_counterexample:
  "dxfstr plain_ops (DXFTag 1 (PyStr [CHR ''a'', newline, CHR ''b''])) =
     [CHR '' '', CHR '' '', CHR ''1'', newline, CHR ''a'', newline, CHR ''b'', newline]
   \<and> count_list (dxfstr plain_ops (DXFTag 1 (PyStr [CHR ''a'', newline, CHR ''b'']))) newline = 3"
  by (simp add: TAG_STRING_FORMAT_def fmt_3d_examples) (simp add: newline_def)

text \<open>
  Claim C5. A vertex tag of two or three components at code \<open>c\<close> serializes to the
  records of its components, one scalar record each, at the codes \<open>c\<close>, \<open>c + 10\<close>,
  \<open>c + 20\<close> in this order. The vertex \<^verbatim>\<open>(10, (1.0, 2.0, 3.0))\<close> serializes to the three
  scalar records at 10, 20 and 30.
\<close>

theorem vertex_tag_records:
  "dxfstr ops (DXFVertex c [x, y]) =
      dxfstr ops (DXFTag c (PyFloat x)) @ dxfstr ops (DXFTag (c + 10) (PyFloat y))
   \<and> dxfstr ops (DXFVertex c [x, y, z]) =
      dxfstr ops (DXFTag c (PyFloat x)) @ dxfstr ops (DXFTag (c + 10) (PyFloat y))
        @ dxfstr ops (DXFTag (c + 20) (PyFloat z))
   \<and> (length xs = 2 \<or> length xs = 3 \<longrightarrow>
        dxftags (DXFVertex c xs) = map (\<lambda>i. (c + 10 * int i, PyFloat (xs ! i))) [0..<length xs]
        \<and> dxfstr ops (DXFVertex c xs) =
            concat (map (\<lambda>i. dxfstr ops (DXFTag (c + 10 * int i) (PyFloat (xs ! i)))) [0..<length xs]))"
proof -
  have gen: "dxftags (DXFVertex c xs) = map (\<lambda>i. (c + 10 * int i, PyFloat (xs ! i))) [0..<length xs]
        \<and> dxfstr ops (DXFVertex c xs) =
            concat (map (\<lambda>i. dxfstr ops (DXFTag (c + 10 * int i) (PyFloat (xs ! i)))) [0..<length xs])"
    if "length xs = 2 \<or> length xs = 3"
  proof -
    from that consider a b where "xs = [a, b]" | a b d where "xs = [a, b, d]"
      by (cases xs; cases "tl xs"; cases "tl (tl xs)"; cases "tl (tl (tl xs))") auto
    then show ?thesis
      by cases (simp_all add: upt_rec)
  qed
  have two: "dxfstr ops (DXFVertex c [x, y]) =
      dxfstr ops (DXFTag c (PyFloat x)) @ dxfstr ops (DXFTag (c + 10) (PyFloat y))"
    by simp
  have three: "dxfstr ops (DXFVertex c [x, y, z]) =
      dxfstr ops (DXFTag c (PyFloat x)) @ dxfstr ops (DXFTag (c + 10) (PyFloat y))
        @ dxfstr ops (DXFTag (c + 20) (PyFloat z))"
    by simp
  show ?thesis using two three gen by blast
qed

theorem vertex_tag_records_witness:
  "dxfstr plain_ops (DXFVertex 10 [1, 2, 3]) =
     '' 10'' @ [newline] @ ''1.0'' @ [newline] @ '' 20'' @ [newline] @ ''2.0'' @ [newline]
       @ '' 30'' @ [newline] @ ''3.0'' @ [newline]
   \<and> dxfstr plain_ops (DXFVertex 10 [1, 2, 3]) =
       dxfstr plain_ops (DXFTag 10 (PyFloat 1)) @ dxfstr plain_ops (DXFTag 20 (PyFloat 2))
         @ dxfstr plain_ops (DXFTag 30 (PyFloat 3))
   \<and> dxftags (DXFVertex 10 [1, 2 :: real]) = [(10, PyFloat 1), (20, PyFloat 2)]"
proof -
  have recs: "dxfstr plain_ops (DXFTag 10 (PyFloat 1)) = '' 10'' @ [newline] @ ''1.0'' @ [newline]"
    "dxfstr plain_ops (DXFTag 20 (PyFloat 2)) = '' 20'' @ [newline] @ ''2.0'' @ [newline]"
    "dxfstr plain_ops (DXFTag 30 (PyFloat 3)) = '' 30'' @ [newline] @ ''3.0'' @ [newline]"
    by (simp_all add: TAG_STRING_FORMAT_def fmt_3d_examples plain_ops_def)
  have three: "dxfstr plain_ops (DXFVertex 10 [1, 2, 3]) =
       dxfstr plain_ops (DXFTag 10 (PyFloat 1)) @ dxfstr plain_ops (DXFTag 20 (PyFloat 2))
         @ dxfstr plain_ops (DXFTag 30 (PyFloat 3))"
    using vertex_tag_records [of plain_ops 10 1 2 3 "[1, 2]"] by simp
  have two: "dxftags (DXFVertex 10 [1, 2 :: real]) = [(10, PyFloat 1), (20, PyFloat 2)]"
    using vertex_tag_records [of plain_ops 10 1 2 3 "[1, 2]"] by (simp add: upt_rec)
  show ?thesis
    unfolding three recs using two by (simp del: dxfstr.simps dxftags.simps)
qed

text \<open>
  Claim C3, as the code has it. \<^verbatim>\<open>cast_tag_value\<close> calls the caster the table gives for the
  code, the text caster when the table has none: the lookup never fails. For a code of no
  rule the result is the text of the value, and nothing is raised. An exception comes only
  from a caster other than the text caster that a rule assigns to the code and that
  rejects the value; on a text, the integer caster raises ValueError exactly when the text
  is no integer literal, the float caster exactly when \<^verbatim>\<open>float\<close> does.
\<close>

theorem cast_tag_value_lookup:
  "cast_tag_value ops code v types = call ops (dict_get types code Custr) v
   \<and> (types code = None \<longrightarrow> cast_tag_value ops code v types = Inr (PyStr (py_str ops v)))
   \<and> (types code = None \<longrightarrow> cast_tag_value ops code (PyStr s) types = Inr (PyStr s))
   \<and> (cast_tag_value ops code v types = Inl err \<longrightarrow>
        (\<exists>k. types code = Some k \<and> k \<noteq> Custr \<and> call ops k v = Inl err))
   \<and> (types code = Some Cint \<longrightarrow>
        cast_tag_value ops code (PyStr s) types =
          (case int_of_str s of None \<Rightarrow> Inl ValueError | Some i \<Rightarrow> Inr (PyInt i)))
   \<and> (types code = Some Cfloat \<longrightarrow>
        cast_tag_value ops code (PyStr s) types =
          (case float_of_str ops s of None \<Rightarrow> Inl ValueError | Some x \<Rightarrow> Inr (PyFloat x)))"
proof -
  have raise: "\<exists>k. types code = Some k \<and> k \<noteq> Custr \<and> call ops k v = Inl err"
    if "cast_tag_value ops code v types = Inl err"
  proof (cases "types code")
    case None
    with that show ?thesis by (simp add: cast_tag_value_def dict_get_def)
  next
    case (Some k)
    with that show ?thesis by (cases k) (simp_all add: cast_tag_value_def dict_get_def)
  qed
  have none: "cast_tag_value ops code w types = Inr (PyStr (py_str ops w))" if "types code = None" for w
    using that by (simp add: cast_tag_value_def dict_get_def ustr_def)
  have ints: "cast_tag_value ops code (PyStr s) types =
          (case int_of_str s of None \<Rightarrow> Inl ValueError | Some i \<Rightarrow> Inr (PyInt i))"
    if "types code = Some Cint"
    using that by (simp add: cast_tag_value_def dict_get_def split: option.splits)
  have floats: "cast_tag_value ops code (PyStr s) types =
          (case float_of_str ops s of None \<Rightarrow> Inl ValueError | Some x \<Rightarrow> Inr (PyFloat x))"
    if "types code = Some Cfloat"
    using that by (simp add: cast_tag_value_def dict_get_def split: option.splits)
  show ?thesis
    using raise none [of v] none [of "PyStr s"] ints floats
    by (simp add: cast_tag_value_def)
qed

theorem cast_tag_value_lookup_witness:
  "cast_tag_value plain_ops 100 (PyStr ''abc'') TYPE_TABLE = Inr (PyStr ''abc'')
   \<and> cast_tag_value plain_ops 60 (PyStr ''42'') TYPE_TABLE = Inr (PyInt 42)
   \<and> cast_tag_value plain_ops 60 (PyStr ''4x'') TYPE_TABLE = Inl ValueError
   \<and> cast_tag_value plain_ops 60 (PyStr [CHR 0x1C, CHR ''7'', CHR 0x1F]) TYPE_TABLE = Inl ValueError"
proof -
  have x: "int_of_str ''4x'' = None"
    by (simp add: int_of_str_def strip_def is_space_def nat_of_str_def digit_of_def)
  have t100: "TYPE_TABLE 100 = None" and t60: "TYPE_TABLE 60 = Some Cint"
    by (simp_all add: TYPE_TABLE_eq)
  have "cast_tag_value plain_ops 100 (PyStr ''abc'') TYPE_TABLE = Inr (PyStr ''abc'')"
    using cast_tag_value_lookup [of plain_ops 100 "PyStr ''abc''" TYPE_TABLE "''abc''" ValueError] t100
    by blast
  moreover have "cast_tag_value plain_ops 60 (PyStr ''42'') TYPE_TABLE =
      (case int_of_str ''42'' of None \<Rightarrow> Inl ValueError | Some i \<Rightarrow> Inr (PyInt i))"
    using cast_tag_value_lookup [of plain_ops 60 "PyStr ''42''" TYPE_TABLE "''42''" ValueError] t60
    by blast
  moreover have "cast_tag_value plain_ops 60 (PyStr ''4x'') TYPE_TABLE =
      (case int_of_str ''4x'' of None \<Rightarrow> Inl ValueError | Some i \<Rightarrow> Inr (PyInt i))"
    using cast_tag_value_lookup [of plain_ops 60 "PyStr ''4x''" TYPE_TABLE "''4x''" ValueError] t60
    by blast
  moreover have "cast_tag_value plain_ops 60 (PyStr [CHR 0x1C, CHR ''7'', CHR 0x1F]) TYPE_TABLE =
      (case int_of_str [CHR 0x1C, CHR ''7'', CHR 0x1F] of
         None \<Rightarrow> Inl ValueError | Some i \<Rightarrow> Inr (PyInt i))"
    using cast_tag_value_lookup [of plain_ops 60 "PyStr [CHR 0x1C, CHR ''7'', CHR 0x1F]" TYPE_TABLE
        "[CHR 0x1C, CHR ''7'', CHR 0x1F]" ValueError] t60
    by blast
  ultimately show ?thesis by (simp add: int_of_str_examples x)
qed

text \<open>
  Claim C3 as stated, that decoding never raises, fails: code 60 is an integer code, and
  \<^verbatim>\<open>cast_tag_value(60, 'abc')\<close> raises ValueError.
\<close>

theorem cast_tag_value_raises_counterexample:
  "cast_tag_value plain_ops 60 (PyStr ''abc'') TYPE_TABLE = Inl ValueError"
  by (simp add: cast_tag_value_def dict_get_def TYPE_TABLE_examples int_of_str_examples)

end
